theory Spec2Isabelle
  imports Complex_Main
begin

section \<open>Identity handshake (middleware/auth, utils/auth)\<close>

text \<open>
  \<open>AuthUser\<close> and \<open>JWTPayload\<close> of utils/auth. Optional fields are options.
\<close>

record authUser =
  au_id :: string
  au_username :: "string option"
  au_email :: "string option"
  au_isAnonymous :: bool
  au_isAdmin :: bool

record jwtPayload =
  jp_userId :: string
  jp_isAnonymous :: bool
  jp_isAdmin :: bool
  jp_sessionId :: "string option"

text \<open>
  A thrown exception is a value. \<open>getUserFromToken\<close> calls \<open>verifyToken\<close> (which throws
  on a bad token: \<open>None\<close> here) and \<open>prisma.user.findUnique\<close> (which yields the row, null,
  or throws) inside one try block whose catch returns null.
\<close>

datatype exn = Exn string

definition getUserFromToken ::
  "(string \<Rightarrow> jwtPayload option) \<Rightarrow> (string \<Rightarrow> exn + authUser option) \<Rightarrow> string \<Rightarrow> authUser option"
where
  "getUserFromToken verifyToken findUnique token =
     (case verifyToken token of
        None \<Rightarrow> None
      | Some payload \<Rightarrow>
          (case findUnique (jp_userId payload) of
             Inl e \<Rightarrow> None
           | Inr user \<Rightarrow> user))"

text \<open>
  The socket before and after the handshake middleware. \<open>hs_token\<close> is
  \<open>socket.handshake.auth?.token\<close>; \<open>next()\<close> accepts the connection, \<open>next(err)\<close> would
  refuse it.
\<close>

record rawSocket =
  rs_id :: string
  hs_token :: "string option"
  hs_address :: string

record customSocket =
  sk_id :: string
  sk_user :: authUser
  sk_isAuthenticated :: bool
  sk_address :: string

datatype nextResult = Next | NextErr exn

definition anonymousUser :: "string \<Rightarrow> authUser" where
  "anonymousUser sid =
     \<lparr>au_id = ''anonymous_'' @ sid, au_username = None, au_email = None,
      au_isAnonymous = True, au_isAdmin = False\<rparr>"

definition attach :: "rawSocket \<Rightarrow> authUser \<Rightarrow> bool \<Rightarrow> customSocket" where
  "attach socket u a =
     \<lparr>sk_id = rs_id socket, sk_user = u, sk_isAuthenticated = a, sk_address = hs_address socket\<rparr>"

text \<open>JavaScript truthiness of an optional string: undefined and the empty string are falsy.\<close>

fun truthy :: "string option \<Rightarrow> bool" where
  "truthy None = False"
| "truthy (Some s) = (s \<noteq> [])"

text \<open>
  \<open>socketAuth\<close>. The verifier is a parameter that may itself throw (\<open>Inl\<close>), so that
  the catch block of \<open>socketAuth\<close> is a branch of the model.
\<close>

definition socketAuth ::
  "(string \<Rightarrow> exn + authUser option) \<Rightarrow> rawSocket \<Rightarrow> customSocket \<times> nextResult"
where
  "socketAuth getUser socket =
     (if truthy (hs_token socket) then
        (case getUser (the (hs_token socket)) of
           Inl e \<Rightarrow> (attach socket (anonymousUser (rs_id socket)) False, Next)
         | Inr None \<Rightarrow> (attach socket (anonymousUser (rs_id socket)) False, Next)
         | Inr (Some user) \<Rightarrow> (attach socket user True, Next))
      else (attach socket (anonymousUser (rs_id socket)) False, Next))"

text \<open>The middleware as wired: the verifier is \<open>getUserFromToken\<close>, which never throws.\<close>

definition socketAuthWired ::
  "(string \<Rightarrow> jwtPayload option) \<Rightarrow> (string \<Rightarrow> exn + authUser option) \<Rightarrow> rawSocket
     \<Rightarrow> customSocket \<times> nextResult"
where
  "socketAuthWired verifyToken findUnique =
     socketAuth (\<lambda>t. Inr (getUserFromToken verifyToken findUnique t))"

text \<open>The credential states of the claim: absent, invalid (the verifier yields null), erroring.\<close>

definition credentialRejected :: "(string \<Rightarrow> exn + authUser option) \<Rightarrow> rawSocket \<Rightarrow> bool" where
  "credentialRejected getUser socket =
     (if truthy (hs_token socket) then
        (case getUser (the (hs_token socket)) of
           Inl e \<Rightarrow> True | Inr None \<Rightarrow> True | Inr (Some user) \<Rightarrow> False)
      else True)"

section \<open>Characters and strings\<close>

text \<open>
  Strings are lists of code units; the model covers code units up to 255. The character
  classes are those of JavaScript regular expressions on that range: \<open>\w\<close> is
  \<open>[A-Za-z0-9_]\<close>, \<open>\s\<close> is tab, line feed, vertical tab, form feed, carriage return,
  space and no-break space, and \<open>.\<close> is anything but a line terminator.
\<close>

definition code :: "char \<Rightarrow> nat" where
  "code c = of_char c"

definition isWord :: "char \<Rightarrow> bool" where
  "isWord c = ((48 \<le> code c \<and> code c \<le> 57) \<or> (65 \<le> code c \<and> code c \<le> 90)
     \<or> code c = 95 \<or> (97 \<le> code c \<and> code c \<le> 122))"

definition isSpace :: "char \<Rightarrow> bool" where
  "isSpace c = ((9 \<le> code c \<and> code c \<le> 13) \<or> code c = 32 \<or> code c = 160)"

definition isLineTerminator :: "char \<Rightarrow> bool" where
  "isLineTerminator c = (code c = 10 \<or> code c = 13)"

definition isUpperAZ :: "char \<Rightarrow> bool" where
  "isUpperAZ c = (65 \<le> code c \<and> code c \<le> 90)"

definition toLowerChar :: "char \<Rightarrow> char" where
  "toLowerChar c =
     (if (65 \<le> code c \<and> code c \<le> 90) \<or> (192 \<le> code c \<and> code c \<le> 222 \<and> code c \<noteq> 215)
      then char_of (code c + 32) else c)"

definition toLowerCase :: "string \<Rightarrow> string" where
  "toLowerCase s = map toLowerChar s"

text \<open>\<open>String.prototype.trim\<close>: white space is stripped at both ends.\<close>

definition trim :: "string \<Rightarrow> string" where
  "trim s = rev (dropWhile isSpace (rev (dropWhile isSpace s)))"

text \<open>\<open>String.prototype.includes\<close>.\<close>

fun startsWith :: "string \<Rightarrow> string \<Rightarrow> bool" where
  "startsWith s [] = True"
| "startsWith [] (k # ks) = False"
| "startsWith (x # xs) (k # ks) = (x = k \<and> startsWith xs ks)"

fun includes_str :: "string \<Rightarrow> string \<Rightarrow> bool" where
  "includes_str [] k = (k = [])"
| "includes_str (x # xs) k = (startsWith (x # xs) k \<or> includes_str xs k)"

section \<open>Spam detection (middleware/rateLimiting)\<close>

text \<open>
  \<open>req.body.description\<close> as the code tests it: a falsy value that is not a string
  (undefined, null, 0, false), a string, or a truthy value that is not a string (a number,
  true, an object, an array).
\<close>

datatype jsDescription = NoDescription | StringDescription string | OtherDescription

text \<open>
  The request as \<open>spamDetection\<close> reads it. \<open>rq_bodyJson\<close> is \<open>JSON.stringify(req.body)\<close>,
  which is undefined (\<open>None\<close>) when the request has no body; \<open>rq_description\<close> is
  \<open>req.body.description\<close>; \<open>rq_routePath\<close> is \<open>req.route?.path\<close>.
\<close>

record request =
  rq_ip :: "string option"
  rq_remoteAddress :: "string option"
  rq_userAgent :: "string option"
  rq_bodyJson :: "string option"
  rq_description :: jsDescription
  rq_routePath :: "string option"
  rq_path :: string

text \<open>
  A row of \<open>submissionLog\<close>, unique on (ipAddress, action, windowStart). Times are
  milliseconds since the epoch. A created row takes the creation time as \<open>createdAt\<close>.
\<close>

record submissionLog =
  sl_ipAddress :: string
  sl_userAgent :: string
  sl_action :: string
  sl_count :: nat
  sl_windowStart :: int
  sl_createdAt :: int

definition spamKeywords :: "string list" where
  "spamKeywords =
     [''viagra'', ''casino'', ''loan'', ''bitcoin'', ''crypto'',
      ''get rich quick'', ''make money fast'', ''click here'',
      ''limited time offer'', ''act now'', ''free money'']"

text \<open>\<open>/(.)\1{10,}/\<close>: eleven equal characters in a row, none a line terminator.\<close>

fun repeatedRun :: "char \<Rightarrow> nat \<Rightarrow> string \<Rightarrow> bool" where
  "repeatedRun c k [] = (11 \<le> k)"
| "repeatedRun c k (x # xs) =
     (11 \<le> k \<or>
      (if isLineTerminator x then repeatedRun x 0 xs
       else if x = c then repeatedRun c (Suc k) xs
       else repeatedRun x 1 xs))"

text \<open>\<open>/[^\w\s]{5,}/\<close>: five characters in a row, none a word character or white space.\<close>

fun specialRun :: "nat \<Rightarrow> string \<Rightarrow> bool" where
  "specialRun k [] = (5 \<le> k)"
| "specialRun k (x # xs) =
     (5 \<le> k \<or> (if isWord x \<or> isSpace x then specialRun 0 xs else specialRun (Suc k) xs))"

text \<open>\<open>/(http|https|www\.)/gi\<close>, tested once on a fresh regular expression.\<close>

definition hasUrl :: "string \<Rightarrow> bool" where
  "hasUrl s = (includes_str (toLowerCase s) ''http'' \<or> includes_str (toLowerCase s) ''https''
     \<or> includes_str (toLowerCase s) ''www.'')"

definition suspiciousPatterns :: "(string \<Rightarrow> bool) list" where
  "suspiciousPatterns = [repeatedRun (CHR 0x0A) 0, specialRun 0, hasUrl]"

definition capsRatio :: "string \<Rightarrow> real" where
  "capsRatio desc = real (length (filter isUpperAZ desc)) / real (length desc)"

text \<open>
  The score of the description: nothing when it is falsy; for a string its length (10 when
  shorter than 10, 25 when longer than 5000) and its share of capitals (20 when above one
  half). A truthy value that is not a string has no \<open>match\<close> method: the call throws
  (\<open>None\<close>).
\<close>

definition descriptionScore :: "jsDescription \<Rightarrow> nat option" where
  "descriptionScore d =
     (case d of
        NoDescription \<Rightarrow> Some 0
      | StringDescription desc \<Rightarrow>
          (if desc = [] then Some 0
           else Some ((if length desc < 10 then 10 else 0)
                      + (if length desc > 5000 then 25 else 0)
                      + (if capsRatio desc > 0.5 then 20 else 0)))
      | OtherDescription \<Rightarrow> None)"

text \<open>
  The score before the frequency check: keywords (20 each), patterns (15 each) and the
  description. \<open>None\<close> when the code throws before the store is read: on a request
  without a body (\<open>toLowerCase\<close> of undefined) or on a description that is not a string.
\<close>

definition contentScore :: "request \<Rightarrow> nat option" where
  "contentScore req =
     (case rq_bodyJson req of
        None \<Rightarrow> None
      | Some json \<Rightarrow>
          (let content = toLowerCase json in
             (case descriptionScore (rq_description req) of
                None \<Rightarrow> None
              | Some d \<Rightarrow>
                  Some (fold (\<lambda>keyword s. if includes_str content keyword then s + 20 else s)
                          spamKeywords 0
                        + fold (\<lambda>pattern s. if pattern content then s + 15 else s)
                            suspiciousPatterns 0
                        + d))))"

text \<open>The store operations of the whole model; \<open>fails op\<close> says that the call throws.\<close>

datatype dbop =
    SightingFindUnique | ChatMessageCreate | ChatMessageFindMany
  | UserUpdate | UserFindUnique | UserFindMany | FindNearbySync
  | SubmissionLogFindMany | SubmissionLogUpsert

datatype decision = Status429 | CalledNext

definition orElse :: "string option \<Rightarrow> string \<Rightarrow> string" where
  "orElse a b = (if truthy a then the a else b)"

definition actorKey :: "request \<Rightarrow> string" where
  "actorKey req = orElse (rq_ip req) (orElse (rq_remoteAddress req) ''unknown'')"

definition hourMs :: int where
  "hourMs = 60 * 60 * 1000"

definition recentSubmissions :: "submissionLog list \<Rightarrow> string \<Rightarrow> int \<Rightarrow> submissionLog list" where
  "recentSubmissions slog ipAddress now =
     filter (\<lambda>r. sl_ipAddress r = ipAddress \<and> now - hourMs \<le> sl_createdAt r) slog"

definition windowStartOf :: "int \<Rightarrow> int" where
  "windowStartOf now = (now div hourMs) * hourMs"

fun upsert :: "submissionLog list \<Rightarrow> submissionLog \<Rightarrow> submissionLog list" where
  "upsert [] new = [new]"
| "upsert (r # rs) new =
     (if sl_ipAddress r = sl_ipAddress new \<and> sl_action r = sl_action new
         \<and> sl_windowStart r = sl_windowStart new
      then r\<lparr>sl_count := sl_count r + 1\<rparr> # rs
      else r # upsert rs new)"

text \<open>
  \<open>spamDetection\<close>: the log after the call and what the middleware did. Any throw inside
  the try block ends in the catch, which calls \<open>next()\<close>.
\<close>

definition spamDetection ::
  "(dbop \<Rightarrow> bool) \<Rightarrow> int \<Rightarrow> submissionLog list \<Rightarrow> request \<Rightarrow> submissionLog list \<times> decision"
where
  "spamDetection fails now slog req =
     (let ipAddress = actorKey req;
          userAgent = orElse (rq_userAgent req) [];
          action = orElse (rq_routePath req) (rq_path req)
     in
       case contentScore req of
         None \<Rightarrow> (slog, CalledNext)
       | Some spamScore \<Rightarrow>
           if fails SubmissionLogFindMany then (slog, CalledNext)
           else
             let spamScore2 =
                   (if length (recentSubmissions slog ipAddress now) > 5
                    then spamScore + 30 else spamScore)
             in
               if fails SubmissionLogUpsert then (slog, CalledNext)
               else
                 (upsert slog
                    \<lparr>sl_ipAddress = ipAddress, sl_userAgent = userAgent, sl_action = action,
                     sl_count = 1, sl_windowStart = windowStartOf now, sl_createdAt = now\<rparr>,
                  if spamScore2 \<ge> 50 then Status429 else CalledNext))"

text \<open>
  A sequence of submissions, each at its time, against the evolving log: the log at the
  end and what the middleware did with each.
\<close>

fun submitAll ::
  "(dbop \<Rightarrow> bool) \<Rightarrow> submissionLog list \<Rightarrow> (int \<times> request) list
     \<Rightarrow> submissionLog list \<times> decision list"
where
  "submitAll fails slog [] = (slog, [])"
| "submitAll fails slog ((now, req) # rest) =
     (case spamDetection fails now slog req of
        (slog2, d) \<Rightarrow>
          (case submitAll fails slog2 rest of
             (slog3, ds) \<Rightarrow> (slog3, d # ds)))"

text \<open>
  A borderline submission: the body \<open>{"description":"www.loan"}\<close> scores 45 (the keyword
  loan, the URL pattern, a description shorter than 10), sent eleven times, one minute
  apart, on one route from one address, inside one clock hour.
\<close>

definition borderline :: request where
  "borderline =
     \<lparr>rq_ip = Some ''203.0.113.7'', rq_remoteAddress = None, rq_userAgent = Some ''curl'',
      rq_bodyJson = Some (''{'' @ [CHR 0x22] @ ''description'' @ [CHR 0x22] @ '':'' @ [CHR 0x22]
         @ ''www.loan'' @ [CHR 0x22] @ ''}''),
      rq_description = StringDescription ''www.loan'', rq_routePath = Some ''/'', rq_path = ''/''\<rparr>"

definition elevenSubmissions :: "(int \<times> request) list" where
  "elevenSubmissions =
     map (\<lambda>k. (1700000000000 + k * 60000, borderline)) [0, 1, 2, 3, 4, 5, 6, 7, 8, 9, 10]"

definition noFault :: "dbop \<Rightarrow> bool" where
  "noFault op = False"

section \<open>Geospatial matcher\<close>

text \<open>
  Modelled from the spec: \<open>geoUtils.calculateDistance\<close> of utils/database, which is not
  among the sources. The spec gives the great-circle distance by the haversine formula
  with Earth radius 6371 km; coordinates are in degrees. JavaScript numbers are modelled
  as reals.
\<close>

definition toRad :: "real \<Rightarrow> real" where
  "toRad deg = deg * pi / 180"

definition calculateDistance :: "real \<Rightarrow> real \<Rightarrow> real \<Rightarrow> real \<Rightarrow> real" where
  "calculateDistance lat1 lon1 lat2 lon2 =
     (let dLat = toRad (lat2 - lat1);
          dLon = toRad (lon2 - lon1);
          a = (sin (dLat / 2))\<^sup>2 + cos (toRad lat1) * cos (toRad lat2) * (sin (dLon / 2))\<^sup>2
      in 6371 * (2 * arcsin (sqrt a)))"

text \<open>
  Modelled from the spec: \<open>distanceKm\<close> and \<open>isWithinRadius\<close> of the Geospatial Matcher,
  on pairs (latitude, longitude); out-of-range input is rejected with a validation error,
  and \<open>isWithinRadius\<close> is true iff the distance is at most the radius.
\<close>

datatype validationError = ValidationError

definition validCoord :: "real \<times> real \<Rightarrow> bool" where
  "validCoord p = (- 90 \<le> fst p \<and> fst p \<le> 90 \<and> - 180 \<le> snd p \<and> snd p \<le> 180)"

definition distanceKm :: "real \<times> real \<Rightarrow> real \<times> real \<Rightarrow> validationError + real" where
  "distanceKm a b =
     (if validCoord a \<and> validCoord b
      then Inr (calculateDistance (fst a) (snd a) (fst b) (snd b))
      else Inl ValidationError)"

definition isWithinRadius ::
  "real \<times> real \<Rightarrow> real \<times> real \<Rightarrow> real \<Rightarrow> validationError + bool" where
  "isWithinRadius origin candidate radiusKm =
     (case distanceKm origin candidate of
        Inl e \<Rightarrow> Inl e
      | Inr d \<Rightarrow> Inr (d \<le> radiusKm))"

section \<open>The store and the socket server (services/socketService)\<close>

text \<open>
  Rows of the store, with the fields the code reads and writes. A created chat message
  gets a fresh id and the creation time from the store, and is not hidden.
\<close>

record sighting =
  sg_id :: string
  sg_title :: string
  sg_isHidden :: bool
  sg_latitude :: real
  sg_longitude :: real
  sg_location :: "string option"
  sg_createdAt :: int

record userRow =
  ur_id :: string
  ur_username :: "string option"
  ur_isAnonymous :: bool
  ur_enableNotifications :: bool
  ur_lastLatitude :: "real option"
  ur_lastLongitude :: "real option"
  ur_lastLocationUpdate :: "int option"
  ur_notificationRadius :: real

record chatMessage =
  cm_id :: string
  cm_message :: string
  cm_sightingId :: string
  cm_userId :: "string option"
  cm_anonymousName :: "string option"
  cm_ipAddress :: string
  cm_isHidden :: bool
  cm_createdAt :: int

text \<open>The \<open>user\<close> object sent with a message: \<open>{id, username, isAnonymous}\<close>.\<close>

record userSummary =
  us_id :: "string option"
  us_username :: "string option"
  us_isAnonymous :: bool

text \<open>
  The server: the rooms of the Socket.IO adapter (room name to socket ids), the
  \<open>connectedUsers\<close> map, and the tables.
\<close>

record server =
  rooms :: "string \<Rightarrow> string set"
  connectedUsers :: "string \<Rightarrow> customSocket option"
  sightings :: "sighting list"
  chatMessages :: "chatMessage list"
  users :: "userRow list"

datatype event =
    ErrorEvent string
  | UserJoined string string bool
  | UserLeft string string
  | ChatHistory string "(chatMessage \<times> userSummary option) list"
  | NewChatMessage string string int userSummary string
  | LocationUpdated real real
  | NearbySightings "(string \<times> string \<times> real \<times> int) list"
  | UserTyping string string bool
  | UserStoppedTyping string
  | NewNearbySighting string string real "string option"

text \<open>
  An emit is recorded with the sockets it reaches: \<open>socket.emit\<close> reaches the socket,
  \<open>socket.to(room).emit\<close> the members of the room but the socket, \<open>io.to(room).emit\<close> all
  members of the room.
\<close>

type_synonym delivery = "string set \<times> event"

definition sightingRoom :: "string \<Rightarrow> string" where
  "sightingRoom sightingId = ''sighting:'' @ sightingId"

definition userRoom :: "string \<Rightarrow> string" where
  "userRoom userId = ''user:'' @ userId"

definition socketEmit :: "customSocket \<Rightarrow> event \<Rightarrow> delivery" where
  "socketEmit socket ev = ({sk_id socket}, ev)"

definition socketToEmit :: "server \<Rightarrow> customSocket \<Rightarrow> string \<Rightarrow> event \<Rightarrow> delivery" where
  "socketToEmit s socket room ev = (rooms s room - {sk_id socket}, ev)"

definition ioToEmit :: "server \<Rightarrow> string \<Rightarrow> event \<Rightarrow> delivery" where
  "ioToEmit s room ev = (rooms s room, ev)"

definition socketJoin :: "server \<Rightarrow> customSocket \<Rightarrow> string \<Rightarrow> server" where
  "socketJoin s socket room = s\<lparr>rooms := (rooms s)(room := insert (sk_id socket) (rooms s room))\<rparr>"

definition socketLeave :: "server \<Rightarrow> customSocket \<Rightarrow> string \<Rightarrow> server" where
  "socketLeave s socket room = s\<lparr>rooms := (rooms s)(room := rooms s room - {sk_id socket})\<rparr>"

text \<open>\<open>sighting && !sighting.isHidden\<close> for the row found by id.\<close>

definition visibleSighting :: "server \<Rightarrow> string \<Rightarrow> bool" where
  "visibleSighting s sightingId =
     (case find (\<lambda>g. sg_id g = sightingId) (sightings s) of
        None \<Rightarrow> False
      | Some g \<Rightarrow> \<not> sg_isHidden g)"

definition selectUser :: "server \<Rightarrow> string option \<Rightarrow> userSummary option" where
  "selectUser s userId =
     (case userId of
        None \<Rightarrow> None
      | Some u \<Rightarrow>
          map_option
            (\<lambda>r. \<lparr>us_id = Some (ur_id r), us_username = ur_username r,
                  us_isAnonymous = ur_isAnonymous r\<rparr>)
            (find (\<lambda>r. ur_id r = u) (users s)))"

definition displayName :: "customSocket \<Rightarrow> string" where
  "displayName socket =
     orElse (au_username (sk_user socket))
       (if au_isAnonymous (sk_user socket) then ''Anonymous'' else ''User'')"

text \<open>
  \<open>findMany\<close> of the visible messages of a sighting, newest first, at most 50, each with
  its user. Rows with equal \<open>createdAt\<close> keep their table order.
\<close>

definition recentMessages :: "server \<Rightarrow> string \<Rightarrow> chatMessage list" where
  "recentMessages s sightingId =
     take 50
       (sort_key (\<lambda>m. - cm_createdAt m)
          (filter (\<lambda>m. cm_sightingId m = sightingId \<and> cm_isHidden m = False) (chatMessages s)))"

definition onConnection :: "server \<Rightarrow> customSocket \<Rightarrow> server" where
  "onConnection s socket =
     (let s1 = s\<lparr>connectedUsers := (connectedUsers s)(sk_id socket := Some socket)\<rparr>
      in if au_isAnonymous (sk_user socket) then s1
         else socketJoin s1 socket (userRoom (au_id (sk_user socket))))"

definition handleJoinSighting ::
  "(dbop \<Rightarrow> bool) \<Rightarrow> server \<Rightarrow> customSocket \<Rightarrow> string \<Rightarrow> server \<times> delivery list"
where
  "handleJoinSighting fails s socket sightingId =
     (if fails SightingFindUnique
      then (s, [socketEmit socket (ErrorEvent ''Failed to join sighting chat'')])
      else if visibleSighting s sightingId then
        (let s1 = socketJoin s socket (sightingRoom sightingId);
             joined = socketToEmit s1 socket (sightingRoom sightingId)
                        (UserJoined (au_id (sk_user socket)) (displayName socket)
                           (au_isAnonymous (sk_user socket)))
         in if fails ChatMessageFindMany
            then (s1, [joined, socketEmit socket (ErrorEvent ''Failed to join sighting chat'')])
            else (s1, [joined,
                       socketEmit socket
                         (ChatHistory sightingId
                            (rev (map (\<lambda>m. (m, selectUser s1 (cm_userId m)))
                                    (recentMessages s1 sightingId))))]))
      else (s, [socketEmit socket (ErrorEvent ''Sighting not found'')]))"

definition handleLeaveSighting :: "server \<Rightarrow> customSocket \<Rightarrow> string \<Rightarrow> server \<times> delivery list" where
  "handleLeaveSighting s socket sightingId =
     (let s1 = socketLeave s socket (sightingRoom sightingId)
      in (s1, [socketToEmit s1 socket (sightingRoom sightingId)
                 (UserLeft (au_id (sk_user socket)) (displayName socket))]))"

record chatMessageData =
  cd_sightingId :: string
  cd_message :: string
  cd_anonymousName :: "string option"

definition newChatMessage :: "int \<Rightarrow> string \<Rightarrow> authUser \<Rightarrow> string \<Rightarrow> chatMessageData \<Rightarrow> chatMessage" where
  "newChatMessage now newId user address d =
     \<lparr>cm_id = newId, cm_message = trim (cd_message d), cm_sightingId = cd_sightingId d,
      cm_userId = (if au_isAnonymous user then None else Some (au_id user)),
      cm_anonymousName =
        (if au_isAnonymous user then Some (orElse (cd_anonymousName d) ''Anonymous'') else None),
      cm_ipAddress = address, cm_isHidden = False, cm_createdAt = now\<rparr>"

text \<open>
  \<open>handleChatMessage\<close>. The message is checked, the sighting looked up, the row created
  and the event sent to the room; every throw ends in the catch, which tells the author.
\<close>

definition handleChatMessage ::
  "(dbop \<Rightarrow> bool) \<Rightarrow> int \<Rightarrow> string \<Rightarrow> server \<Rightarrow> customSocket \<Rightarrow> chatMessageData
     \<Rightarrow> server \<times> delivery list"
where
  "handleChatMessage fails now newId s socket d =
     (if cd_message d = [] \<or> length (trim (cd_message d)) = 0
      then (s, [socketEmit socket (ErrorEvent ''Message cannot be empty'')])
      else if length (cd_message d) > 1000
      then (s, [socketEmit socket (ErrorEvent ''Message too long (max 1000 characters)'')])
      else if fails SightingFindUnique
      then (s, [socketEmit socket (ErrorEvent ''Failed to send message'')])
      else if visibleSighting s (cd_sightingId d) then
        (if fails ChatMessageCreate
         then (s, [socketEmit socket (ErrorEvent ''Failed to send message'')])
         else
           (let chatMessage = newChatMessage now newId (sk_user socket) (sk_address socket) d;
                s1 = s\<lparr>chatMessages := chatMessages s @ [chatMessage]\<rparr>
            in (s1, [ioToEmit s1 (sightingRoom (cd_sightingId d))
                       (NewChatMessage (cm_id chatMessage) (cm_message chatMessage)
                          (cm_createdAt chatMessage)
                          (case selectUser s1 (cm_userId chatMessage) of
                             Some u \<Rightarrow> u
                           | None \<Rightarrow> \<lparr>us_id = None, us_username = cm_anonymousName chatMessage,
                                       us_isAnonymous = True\<rparr>)
                          (cd_sightingId d))])))
      else (s, [socketEmit socket (ErrorEvent ''Sighting not found'')]))"

section \<open>The REST endpoint for chat messages (controllers/chatController)\<close>

text \<open>
  The request after the route's middleware: the body fields, the user that
  \<open>optionalAuth\<close> attached (if any), and the address. \<open>chatMessageValidation\<close> checks the
  length of the message as sent (1 to 1000) and of the optional anonymous name (at most
  50), and gives the messages of the failed checks.
\<close>

record restRequest =
  rr_sightingId :: string
  rr_message :: string
  rr_anonymousName :: "string option"
  rr_user :: "authUser option"
  rr_ip :: string

datatype restBody =
    ValidationErrors "string list"
  | ErrorJson string
  | MessageCreated string string int userSummary

definition chatMessageValidation :: "restRequest \<Rightarrow> string list" where
  "chatMessageValidation req =
     (if 1 \<le> length (rr_message req) \<and> length (rr_message req) \<le> 1000 then []
      else [''Message must be 1-1000 characters''])
     @ (case rr_anonymousName req of
          None \<Rightarrow> []
        | Some n \<Rightarrow> if length n \<le> 50 then [] else [''Anonymous name too long''])"

definition createMessage ::
  "(dbop \<Rightarrow> bool) \<Rightarrow> int \<Rightarrow> string \<Rightarrow> server \<Rightarrow> restRequest \<Rightarrow> server \<times> nat \<times> restBody"
where
  "createMessage fails now newId s req =
     (if chatMessageValidation req \<noteq> []
      then (s, 400, ValidationErrors (chatMessageValidation req))
      else
        (case rr_user req of
           None \<Rightarrow> (s, 401, ErrorJson ''User required'')
         | Some user \<Rightarrow>
             if fails SightingFindUnique then (s, 500, ErrorJson ''Failed to create message'')
             else if visibleSighting s (rr_sightingId req) then
               (if fails ChatMessageCreate
                then (s, 500, ErrorJson ''Failed to create message'')
                else
                  (let chatMessage =
                         newChatMessage now newId user (rr_ip req)
                           \<lparr>cd_sightingId = rr_sightingId req,
                            cd_message = trim (rr_message req),
                            cd_anonymousName = map_option trim (rr_anonymousName req)\<rparr>;
                       s1 = s\<lparr>chatMessages := chatMessages s @ [chatMessage]\<rparr>
                   in (s1, 201,
                       MessageCreated (cm_id chatMessage) (cm_message chatMessage)
                         (cm_createdAt chatMessage)
                         (case selectUser s1 (cm_userId chatMessage) of
                            Some u \<Rightarrow> u
                          | None \<Rightarrow>
                              \<lparr>us_id = None,
                               us_username =
                                 Some (orElse (cm_anonymousName chatMessage) ''Anonymous''),
                               us_isAnonymous = True\<rparr>))))
             else (s, 404, ErrorJson ''Sighting not found'')))"

section \<open>Location updates, typing and disconnect (services/socketService)\<close>

text \<open>
  A field of the \<open>update_location\<close> payload: a number, or a value whose \<open>typeof\<close> is not
  \<open>number\<close>. (The payload arrives as JSON, which has no NaN.)
\<close>

datatype jsval = JNumber real | JOther

fun asNumber :: "jsval \<Rightarrow> real option" where
  "asNumber (JNumber x) = Some x"
| "asNumber JOther = None"

record locationUpdateData =
  ld_latitude :: jsval
  ld_longitude :: jsval

definition dayMs :: int where
  "dayMs = 24 * 60 * 60 * 1000"

text \<open>
  \<open>checkNearbyNotifications\<close>, with its own try block: a throw inside sends nothing.
  \<open>geoUtils.findNearbySync\<close> is not among the sources and is a parameter.
\<close>

definition checkNearbyNotifications ::
  "(dbop \<Rightarrow> bool) \<Rightarrow> (real \<Rightarrow> real \<Rightarrow> real \<Rightarrow> nat \<Rightarrow> sighting list) \<Rightarrow> int \<Rightarrow> server
     \<Rightarrow> customSocket \<Rightarrow> real \<Rightarrow> real \<Rightarrow> delivery list"
where
  "checkNearbyNotifications fails findNearbySync now s socket latitude longitude =
     (if fails UserFindUnique then []
      else
        (case find (\<lambda>r. ur_id r = au_id (sk_user socket)) (users s) of
           None \<Rightarrow> []
         | Some user \<Rightarrow>
             if ur_enableNotifications user then
               (if fails FindNearbySync then []
                else
                  (let nearbySightings =
                         findNearbySync latitude longitude (ur_notificationRadius user) 5;
                       recentSightings =
                         filter (\<lambda>g. now - dayMs \<le> sg_createdAt g) nearbySightings
                   in if length recentSightings > 0
                      then [socketEmit socket
                              (NearbySightings
                                 (map (\<lambda>g. (sg_id g, sg_title g,
                                             calculateDistance latitude longitude
                                               (sg_latitude g) (sg_longitude g),
                                             sg_createdAt g))
                                    recentSightings))]
                      else []))
             else []))"

text \<open>
  \<open>handleLocationUpdate\<close>. \<open>prisma.user.update\<close> throws when the store fails or has no
  row of that id.
\<close>

definition handleLocationUpdate ::
  "(dbop \<Rightarrow> bool) \<Rightarrow> (real \<Rightarrow> real \<Rightarrow> real \<Rightarrow> nat \<Rightarrow> sighting list) \<Rightarrow> int \<Rightarrow> server
     \<Rightarrow> customSocket \<Rightarrow> locationUpdateData \<Rightarrow> server \<times> delivery list"
where
  "handleLocationUpdate fails findNearbySync now s socket d =
     (if au_isAnonymous (sk_user socket) then (s, [])
      else
        (case asNumber (ld_latitude d) of
           None \<Rightarrow> (s, [socketEmit socket (ErrorEvent ''Invalid coordinates'')])
         | Some latitude \<Rightarrow>
             (case asNumber (ld_longitude d) of
                None \<Rightarrow> (s, [socketEmit socket (ErrorEvent ''Invalid coordinates'')])
              | Some longitude \<Rightarrow>
                  if latitude < - 90 \<or> latitude > 90 \<or> longitude < - 180 \<or> longitude > 180
                  then (s, [socketEmit socket (ErrorEvent ''Invalid coordinates'')])
                  else if fails UserUpdate
                          \<or> find (\<lambda>r. ur_id r = au_id (sk_user socket)) (users s) = None
                  then (s, [socketEmit socket (ErrorEvent ''Failed to update location'')])
                  else
                    (let s1 = s\<lparr>users :=
                                 map (\<lambda>r. if ur_id r = au_id (sk_user socket)
                                           then r\<lparr>ur_lastLatitude := Some latitude,
                                                  ur_lastLongitude := Some longitude,
                                                  ur_lastLocationUpdate := Some now\<rparr>
                                           else r)
                                   (users s)\<rparr>
                     in (s1,
                         checkNearbyNotifications fails findNearbySync now s1 socket
                           latitude longitude
                         @ [socketEmit socket (LocationUpdated latitude longitude)])))))"

definition handleTypingStart :: "server \<Rightarrow> customSocket \<Rightarrow> string \<Rightarrow> server \<times> delivery list" where
  "handleTypingStart s socket sightingId =
     (s, [socketToEmit s socket (sightingRoom sightingId)
            (UserTyping (au_id (sk_user socket)) (displayName socket)
               (au_isAnonymous (sk_user socket)))])"

definition handleTypingStop :: "server \<Rightarrow> customSocket \<Rightarrow> string \<Rightarrow> server \<times> delivery list" where
  "handleTypingStop s socket sightingId =
     (s, [socketToEmit s socket (sightingRoom sightingId)
            (UserStoppedTyping (au_id (sk_user socket)))])"

text \<open>
  \<open>handleDisconnect\<close>, the handler of the \<open>disconnect\<close> event: the socket is deleted
  from \<open>connectedUsers\<close>; nothing is emitted and no room is touched by the handler.
\<close>

definition handleDisconnect :: "server \<Rightarrow> customSocket \<Rightarrow> server \<times> delivery list" where
  "handleDisconnect s socket =
     (s\<lparr>connectedUsers := (connectedUsers s)(sk_id socket := None)\<rparr>, [])"

section \<open>Proximity notifications (services/notificationService)\<close>

text \<open>
  The candidates of \<open>notifyNearbyUsers\<close>: registered users with notifications enabled
  and both coordinates not null.
\<close>

definition notifiable :: "userRow list \<Rightarrow> userRow list" where
  "notifiable us =
     filter (\<lambda>u. ur_isAnonymous u = False \<and> ur_enableNotifications u = True
                 \<and> ur_lastLatitude u \<noteq> None \<and> ur_lastLongitude u \<noteq> None) us"

text \<open>JavaScript truthiness of an optional number: null and 0 are falsy.\<close>

fun truthyNum :: "real option \<Rightarrow> bool" where
  "truthyNum None = False"
| "truthyNum (Some x) = (x \<noteq> 0)"

text \<open>
  The loop over the candidates, inside the one try block of \<open>notifyNearbyUsers\<close>.
  \<open>pushFails u\<close> says that sending to user \<open>u\<close> throws; the loop then ends with \<open>None\<close>,
  keeping the deliveries made so far.
\<close>

fun notifyEach ::
  "(string \<Rightarrow> bool) \<Rightarrow> server \<Rightarrow> sighting \<Rightarrow> userRow list \<Rightarrow> delivery list \<Rightarrow> nat
     \<Rightarrow> delivery list \<times> nat option"
where
  "notifyEach pushFails s g [] sent notifiedCount = (sent, Some notifiedCount)"
| "notifyEach pushFails s g (user # rest) sent notifiedCount =
     (if truthyNum (ur_lastLatitude user) \<and> truthyNum (ur_lastLongitude user) then
        (let distance =
               calculateDistance (sg_latitude g) (sg_longitude g)
                 (the (ur_lastLatitude user)) (the (ur_lastLongitude user))
         in if distance \<le> ur_notificationRadius user then
              (if pushFails (ur_id user) then (sent, None)
               else notifyEach pushFails s g rest
                      (sent @ [ioToEmit s (userRoom (ur_id user))
                                 (NewNearbySighting (sg_id g) (sg_title g) distance
                                    (sg_location g))])
                      (Suc notifiedCount))
            else notifyEach pushFails s g rest sent notifiedCount)
      else notifyEach pushFails s g rest sent notifiedCount)"

definition notifyNearbyUsers ::
  "(dbop \<Rightarrow> bool) \<Rightarrow> (string \<Rightarrow> bool) \<Rightarrow> server \<Rightarrow> sighting \<Rightarrow> delivery list \<times> nat"
where
  "notifyNearbyUsers fails pushFails s g =
     (if fails UserFindMany then ([], 0)
      else
        (case notifyEach pushFails s g (notifiable (users s)) [] 0 of
           (sent, Some notifiedCount) \<Rightarrow> (sent, notifiedCount)
         | (sent, None) \<Rightarrow> (sent, 0)))"

section \<open>A concrete server\<close>

text \<open>
  Sockets A and B (registered users u1 and u2) are in the room of sighting s1; socket C
  is an anonymous connection in no room. User u1 stands on the equator; u2 and u3 stand
  where sighting s2 is reported; u3 has two live sockets D and E.
\<close>

definition alice :: customSocket where
  "alice =
     \<lparr>sk_id = ''A'',
      sk_user = \<lparr>au_id = ''u1'', au_username = Some ''alice'', au_email = None,
                 au_isAnonymous = False, au_isAdmin = False\<rparr>,
      sk_isAuthenticated = True, sk_address = ''198.51.100.1''\<rparr>"

definition carol :: customSocket where
  "carol =
     \<lparr>sk_id = ''C'', sk_user = anonymousUser ''C'', sk_isAuthenticated = False,
      sk_address = ''198.51.100.3''\<rparr>"

definition equatorSighting :: sighting where
  "equatorSighting =
     \<lparr>sg_id = ''s1'', sg_title = ''Lights over the bay'', sg_isHidden = False,
      sg_latitude = 0, sg_longitude = 10, sg_location = None, sg_createdAt = 1699990000000\<rparr>"

definition citySighting :: sighting where
  "citySighting =
     \<lparr>sg_id = ''s2'', sg_title = ''Disc over the park'', sg_isHidden = False,
      sg_latitude = 40.7812, sg_longitude = - 73.9665, sg_location = None,
      sg_createdAt = 1699990000000\<rparr>"

definition registered :: "string \<Rightarrow> real \<Rightarrow> real \<Rightarrow> real \<Rightarrow> userRow" where
  "registered i la lo radius =
     \<lparr>ur_id = i, ur_username = Some i, ur_isAnonymous = False, ur_enableNotifications = True,
      ur_lastLatitude = Some la, ur_lastLongitude = Some lo, ur_lastLocationUpdate = None,
      ur_notificationRadius = radius\<rparr>"

definition demo :: server where
  "demo =
     \<lparr>rooms = (\<lambda>room. {})
        (''sighting:s1'' := {''A'', ''B''}, ''user:u1'' := {''A''}, ''user:u2'' := {''B''},
         ''user:u3'' := {''D'', ''E''}),
      connectedUsers = (\<lambda>i. None)(''A'' := Some alice, ''C'' := Some carol),
      sightings = [equatorSighting, citySighting],
      chatMessages = [],
      users = [registered ''u1'' 0 10 25,
               registered ''u2'' 40.7812 (- 73.9665) 10,
               registered ''u3'' 40.7812 (- 73.9665) 10]\<rparr>"

definition spamText :: chatMessageData where
  "spamText =
     \<lparr>cd_sightingId = ''s1'', cd_message = ''viagra casino bitcoin'', cd_anonymousName = None\<rparr>"

definition blankText :: chatMessageData where
  "blankText = \<lparr>cd_sightingId = ''s1'', cd_message = ''   '', cd_anonymousName = None\<rparr>"

text \<open>The same blank text posted to the REST endpoint by the registered user u1.\<close>

definition blankRest :: restRequest where
  "blankRest =
     \<lparr>rr_sightingId = ''s1'', rr_message = ''   '', rr_anonymousName = None,
      rr_user = Some (sk_user alice), rr_ip = ''198.51.100.1''\<rparr>"

text \<open>Three messages for sighting s1: one at time 20, a hidden one at 30, one at 10.\<close>

definition message :: "string \<Rightarrow> int \<Rightarrow> bool \<Rightarrow> chatMessage" where
  "message i t hidden =
     \<lparr>cm_id = i, cm_message = ''hello'', cm_sightingId = ''s1'', cm_userId = None,
      cm_anonymousName = Some ''Anonymous'', cm_ipAddress = ''198.51.100.3'',
      cm_isHidden = hidden, cm_createdAt = t\<rparr>"

definition demoChat :: server where
  "demoChat =
     demo\<lparr>chatMessages := [message ''m1'' 20 False, message ''m2'' 30 True,
                             message ''m3'' 10 False]\<rparr>"

section \<open>Theorems\<close>

text \<open>
  C3. For every handshake the connection is accepted (\<open>next()\<close> without an error), whatever
  the credential and whatever the verifier does; an absent, invalid or erroring credential
  gives the synthesized anonymous identity \<open>anonymous_<socket id>\<close>, not authenticated.
  The same holds for the middleware as wired to \<open>getUserFromToken\<close>.
\<close>

theorem socketAuth_never_refuses:
  "snd (socketAuth getUser socket) = Next
   \<and> snd (socketAuthWired verifyToken findUnique socket) = Next
   \<and> (credentialRejected getUser socket \<longrightarrow>
        sk_user (fst (socketAuth getUser socket)) = anonymousUser (rs_id socket)
        \<and> \<not> sk_isAuthenticated (fst (socketAuth getUser socket))
        \<and> au_isAnonymous (sk_user (fst (socketAuth getUser socket))))"
  by (auto simp: socketAuth_def socketAuthWired_def credentialRejected_def attach_def
        anonymousUser_def split: sum.splits option.splits)

theorem socketAuth_never_refuses_witness:
  "credentialRejected (\<lambda>t. Inl (Exn ''jwt malformed''))
      \<lparr>rs_id = ''abc'', hs_token = Some ''bad'', hs_address = ''10.0.0.1''\<rparr>
   \<and> snd (socketAuth (\<lambda>t. Inl (Exn ''jwt malformed''))
      \<lparr>rs_id = ''abc'', hs_token = Some ''bad'', hs_address = ''10.0.0.1''\<rparr>) = Next
   \<and> au_id (sk_user (fst (socketAuth (\<lambda>t. Inl (Exn ''jwt malformed''))
      \<lparr>rs_id = ''abc'', hs_token = Some ''bad'', hs_address = ''10.0.0.1''\<rparr>))) = ''anonymous_abc''"
proof -
  let ?g = "\<lambda>t::string. (Inl (Exn ''jwt malformed'') :: exn + authUser option)"
  let ?s = "\<lparr>rs_id = ''abc'', hs_token = Some ''bad'', hs_address = ''10.0.0.1''\<rparr>"
  have h: "credentialRejected ?g ?s"
    by (simp add: credentialRejected_def)
  from socketAuth_never_refuses [of ?g ?s "\<lambda>t. None" "\<lambda>u. Inr None"] h
  show ?thesis
    by (simp add: anonymousUser_def)
qed

lemma borderline_score: "contentScore borderline = Some 45"
  by code_simp

lemma borderline_fields:
  "actorKey borderline = ''203.0.113.7''"
  "orElse (rq_userAgent borderline) [] = ''curl''"
  "orElse (rq_routePath borderline) (rq_path borderline) = ''/''"
  by (simp_all add: borderline_def actorKey_def orElse_def)

lemma borderline_step:
  "spamDetection noFault now slog borderline =
     (upsert slog
        \<lparr>sl_ipAddress = ''203.0.113.7'', sl_userAgent = ''curl'', sl_action = ''/'',
         sl_count = 1, sl_windowStart = windowStartOf now, sl_createdAt = now\<rparr>,
      if 5 < length (recentSubmissions slog ''203.0.113.7'' now) then Status429 else CalledNext)"
  by (simp add: spamDetection_def borderline_score noFault_def Let_def borderline_fields)

lemma spamDetection_fails_open:
  "spamDetection fails now slog (req\<lparr>rq_description := OtherDescription\<rparr>) = (slog, CalledNext)"
  "spamDetection fails now slog (req\<lparr>rq_bodyJson := None\<rparr>) = (slog, CalledNext)"
  by (simp_all add: spamDetection_def contentScore_def descriptionScore_def Let_def
        split: option.splits)

text \<open>
  C2, at its failing input: eleven borderline submissions (content score 45) are sent
  within one hour from one address on one route. The eleventh is let through, like the
  ninth: the frequency increment is never added. The log holds one row for the address,
  route and clock hour, whose count has reached 11, but the frequency check counts the
  rows of the last hour and never reads the count.
\<close>

theorem spamDetection_eleventh_allowed:
  "contentScore borderline = Some 45
   \<and> snd (submitAll noFault [] elevenSubmissions) ! 8 = CalledNext
   \<and> snd (submitAll noFault [] elevenSubmissions) ! 10 = CalledNext
   \<and> map sl_count (fst (submitAll noFault [] elevenSubmissions)) = [11]"
  by (simp add: borderline_score elevenSubmissions_def borderline_step recentSubmissions_def
        windowStartOf_def hourMs_def)

subsection \<open>Chat messages\<close>

lemma demo_visible: "visibleSighting demo ''s1''"
  by (simp add: visibleSighting_def demo_def equatorSighting_def citySighting_def)

lemma trim_spam: "trim ''viagra casino bitcoin'' = ''viagra casino bitcoin''"
  by code_simp

lemma trim_blank: "trim ''   '' = []"
  by code_simp

lemma trim_Nil: "trim [] = []"
  by (simp add: trim_def)

lemma spam_score:
  "contentScore (borderline\<lparr>rq_bodyJson := Some (cd_message spamText),
                            rq_description := NoDescription\<rparr>) = Some 60"
  by code_simp

text \<open>
  C1, as stated, fails: socket C is not a member of the room of sighting s1 and sends a
  text that the scorer of \<open>spamDetection\<close> puts at 60, above the block threshold 50; the
  message is delivered to both members A and B, and the author gets no error.
\<close>

theorem handleChatMessage_unscored_counterexample:
  "''C'' \<notin> rooms demo (sightingRoom ''s1'')
   \<and> contentScore (borderline\<lparr>rq_bodyJson := Some (cd_message spamText),
                               rq_description := NoDescription\<rparr>) = Some 60
   \<and> snd (handleChatMessage noFault 1700000000000 ''m1'' demo carol spamText) =
       [({''A'', ''B''},
         NewChatMessage ''m1'' ''viagra casino bitcoin'' 1700000000000
           \<lparr>us_id = None, us_username = Some ''Anonymous'', us_isAnonymous = True\<rparr> ''s1'')]"
  apply (simp add: spam_score)
  apply (simp add: handleChatMessage_def spamText_def trim_spam noFault_def demo_visible Let_def
      newChatMessage_def carol_def anonymousUser_def ioToEmit_def selectUser_def orElse_def
      sightingRoom_def)
  apply (simp add: demo_def)
  done

text \<open>
  C1, amended: an inbound chat message whose text is not blank and at most 1000
  characters, for a sighting that exists and is not hidden, is stored (trimmed) and sent
  as \<open>new_chat_message\<close> to all current members of the room, when the store answers; the
  handler checks neither the author's membership nor an abuse score.
\<close>

theorem handleChatMessage_fanout:
  assumes "trim (cd_message d) \<noteq> []" and "length (cd_message d) \<le> 1000"
    and "visibleSighting s (cd_sightingId d)"
    and "\<not> fails SightingFindUnique" and "\<not> fails ChatMessageCreate"
  shows "\<exists>u. handleChatMessage fails now newId s socket d =
           (s\<lparr>chatMessages := chatMessages s
                 @ [newChatMessage now newId (sk_user socket) (sk_address socket) d]\<rparr>,
            [(rooms s (sightingRoom (cd_sightingId d)),
              NewChatMessage newId (trim (cd_message d)) now u (cd_sightingId d))])"
proof -
  from assms(1) have "cd_message d \<noteq> []"
    using trim_Nil by auto
  with assms show ?thesis
    by (simp add: handleChatMessage_def Let_def ioToEmit_def newChatMessage_def)
qed

theorem handleChatMessage_fanout_witness:
  "trim (cd_message spamText) \<noteq> [] \<and> length (cd_message spamText) \<le> 1000
   \<and> visibleSighting demo (cd_sightingId spamText)
   \<and> \<not> noFault SightingFindUnique \<and> \<not> noFault ChatMessageCreate
   \<and> (\<exists>u. handleChatMessage noFault 1700000000000 ''m1'' demo carol spamText =
           (demo\<lparr>chatMessages := chatMessages demo
                 @ [newChatMessage 1700000000000 ''m1'' (sk_user carol) (sk_address carol)
                      spamText]\<rparr>,
            [(rooms demo (sightingRoom (cd_sightingId spamText)),
              NewChatMessage ''m1'' (trim (cd_message spamText)) 1700000000000 u
                (cd_sightingId spamText))]))"
proof -
  have h1: "trim (cd_message spamText) \<noteq> []"
    by (simp add: spamText_def trim_spam)
  have h2: "length (cd_message spamText) \<le> 1000"
    by (simp add: spamText_def)
  have h3: "visibleSighting demo (cd_sightingId spamText)"
    by (simp add: spamText_def demo_visible)
  have h4: "\<not> noFault SightingFindUnique" and h5: "\<not> noFault ChatMessageCreate"
    by (simp_all add: noFault_def)
  from handleChatMessage_fanout [OF h1 h2 h3 h4 h5, of 1700000000000 "''m1''" carol]
    h1 h2 h3 h4 h5
  show ?thesis by blast
qed

lemma handleChatMessage_rejects:
  "trim (cd_message d) = [] \<or> length (cd_message d) > 1000
      \<or> \<not> visibleSighting s (cd_sightingId d) \<Longrightarrow>
   \<exists>msg. handleChatMessage fails now newId s socket d = (s, [({sk_id socket}, ErrorEvent msg)])"
proof -
  have "trim (cd_message d) = [] \<Longrightarrow> length (trim (cd_message d)) = 0" by simp
  then show "trim (cd_message d) = [] \<or> length (cd_message d) > 1000
      \<or> \<not> visibleSighting s (cd_sightingId d) \<Longrightarrow> ?thesis"
    by (auto simp: handleChatMessage_def socketEmit_def Let_def)
qed

text \<open>
  C4, at its failing input: a message of three spaces for the visible sighting s1. On the
  socket the handler answers \<open>Message cannot be empty\<close> to the author and changes nothing.
  Posted to the REST endpoint, the same text passes the length check, which runs before the
  trim, and the handler stores the empty message and answers 201.
\<close>

theorem createMessage_blank_stored:
  "handleChatMessage noFault 1700000000000 ''m1'' demo alice blankText
     = (demo, [({''A''}, ErrorEvent ''Message cannot be empty'')])
   \<and> createMessage noFault 1700000000000 ''m1'' demo blankRest =
       (demo\<lparr>chatMessages :=
                [\<lparr>cm_id = ''m1'', cm_message = [], cm_sightingId = ''s1'',
                  cm_userId = Some ''u1'', cm_anonymousName = None,
                  cm_ipAddress = ''198.51.100.1'', cm_isHidden = False,
                  cm_createdAt = 1700000000000\<rparr>]\<rparr>,
        201,
        MessageCreated ''m1'' [] 1700000000000
          \<lparr>us_id = Some ''u1'', us_username = Some ''u1'', us_isAnonymous = False\<rparr>)"
  apply (rule conjI)
   apply (simp add: handleChatMessage_def blankText_def trim_blank socketEmit_def alice_def)
  apply (simp add: createMessage_def chatMessageValidation_def blankRest_def noFault_def
      demo_visible trim_blank trim_Nil Let_def newChatMessage_def alice_def selectUser_def)
  apply (simp add: demo_def registered_def)
  done

subsection \<open>Geospatial matcher\<close>

lemma calculateDistance_same: "calculateDistance la lo la lo = 0"
  by (simp add: calculateDistance_def toRad_def)

lemma sin_half_sq_swap: "(sin (toRad (x - y) / 2))\<^sup>2 = (sin (toRad (y - x) / 2))\<^sup>2"
proof -
  have "toRad (x - y) / 2 = - (toRad (y - x) / 2)"
    by (simp add: toRad_def field_simps)
  then show ?thesis
    by (simp only: sin_minus power2_minus)
qed

lemma calculateDistance_sym:
  "calculateDistance lat1 lon1 lat2 lon2 = calculateDistance lat2 lon2 lat1 lon1"
  unfolding calculateDistance_def Let_def
  by (simp add: sin_half_sq_swap [of lat2 lat1] sin_half_sq_swap [of lon2 lon1] mult.commute)

text \<open>
  C9. For valid coordinate pairs \<open>a\<close> and \<open>b\<close>: the distance from \<open>a\<close> to \<open>a\<close> is 0, the
  distance is symmetric, and \<open>isWithinRadius a b r\<close> is true exactly when the distance is
  at most \<open>r\<close> (so false when \<open>r\<close> is below it).
\<close>

theorem matcher_properties:
  assumes "validCoord a" and "validCoord b"
  shows "distanceKm a a = Inr 0
     \<and> distanceKm a b = distanceKm b a
     \<and> distanceKm a b = Inr (calculateDistance (fst a) (snd a) (fst b) (snd b))
     \<and> isWithinRadius a b r = Inr (calculateDistance (fst a) (snd a) (fst b) (snd b) \<le> r)"
  using assms
  by (simp add: distanceKm_def isWithinRadius_def calculateDistance_same
        calculateDistance_sym [of "fst a" "snd a" "fst b" "snd b"])

theorem matcher_properties_witness:
  "validCoord (40.7589, - 73.9851) \<and> validCoord (40.7812, - 73.9665)
   \<and> distanceKm (40.7589, - 73.9851) (40.7589, - 73.9851) = Inr 0
   \<and> distanceKm (40.7589, - 73.9851) (40.7812, - 73.9665)
       = distanceKm (40.7812, - 73.9665) (40.7589, - 73.9851)"
proof -
  have h1: "validCoord (40.7589, - 73.9851)" and h2: "validCoord (40.7812, - 73.9665)"
    by (simp_all add: validCoord_def)
  from matcher_properties [OF h1 h2, of 10] h1 h2
  show ?thesis by blast
qed

subsection \<open>Proximity notifications\<close>

lemma notifiable_registered:
  "notifiable (registered i la lo r # us) = registered i la lo r # notifiable us"
  "notifiable [] = []"
  by (simp_all add: notifiable_def registered_def)

text \<open>
  C6, at its failing input: user u1 is a candidate (registered, notifications on,
  coordinates known: latitude 0, longitude 10, radius 25) and a sighting is reported at the
  same point, at distance 0; the user is not notified and the count is 0, because the loop
  tests the coordinates for truthiness and latitude 0 is falsy.
\<close>

theorem notifyNearbyUsers_equator:
  "notifiable [registered ''u1'' 0 10 25] = [registered ''u1'' 0 10 25]
   \<and> calculateDistance (sg_latitude equatorSighting) (sg_longitude equatorSighting) 0 10 = 0
   \<and> notifyNearbyUsers noFault (\<lambda>u. False) (demo\<lparr>users := [registered ''u1'' 0 10 25]\<rparr>)
        equatorSighting = ([], 0)"
  by (simp add: notifiable_def registered_def equatorSighting_def calculateDistance_same
       notifyNearbyUsers_def noFault_def)

text \<open>
  C7, at its failing input: users u2 and u3 stand where sighting s2 is reported. When
  every send succeeds both are notified and the count is 2; when the send to u2 throws,
  the catch around the whole loop ends the pass: u3 is not notified and the count is 0.
\<close>

theorem notifyNearbyUsers_aborts:
  "notifyNearbyUsers noFault (\<lambda>u. False) demo citySighting =
     ([({''B''}, NewNearbySighting ''s2'' ''Disc over the park'' 0 None),
       ({''D'', ''E''}, NewNearbySighting ''s2'' ''Disc over the park'' 0 None)], 2)
   \<and> notifyNearbyUsers noFault (\<lambda>u. u = ''u2'') demo citySighting = ([], 0)"
  apply (simp add: notifyNearbyUsers_def noFault_def demo_def notifiable_registered)
  apply (simp add: registered_def citySighting_def calculateDistance_same ioToEmit_def
      userRoom_def)
  done

subsection \<open>Location updates and disconnects\<close>

text \<open>
  C5, as stated, fails: the anonymous connection C sends the in-range coordinates
  (10, 20); nothing is stored and nothing is sent back, neither an acknowledgement nor an
  error.
\<close>

theorem handleLocationUpdate_anonymous_counterexample:
  "au_isAnonymous (sk_user carol)
   \<and> handleLocationUpdate noFault (\<lambda>la lo r n. []) 1700000000000 demo carol
       \<lparr>ld_latitude = JNumber 10, ld_longitude = JNumber 20\<rparr> = (demo, [])"
  by (simp add: handleLocationUpdate_def carol_def anonymousUser_def)

lemma find_map_update:
  assumes "find P xs = Some x" and "\<And>r. P (f r) = P r"
  shows "find P (map f xs) = Some (f x)"
  using assms by (induction xs) (auto split: if_splits)

text \<open>
  C5, amended: for a connection that is not anonymous, in-range numeric coordinates are
  stored as the user's last-known location and acknowledged with \<open>location_updated\<close>,
  when the store has the user's row and the update succeeds; out-of-range or non-numeric
  coordinates are rejected with the error \<open>Invalid coordinates\<close> and nothing is stored.
  For an anonymous connection the update is dropped: nothing is stored and nothing is sent.
\<close>

theorem handleLocationUpdate_cases:
  "(\<not> au_isAnonymous (sk_user socket)
      \<and> ld_latitude d = JNumber la \<and> ld_longitude d = JNumber lo
      \<and> - 90 \<le> la \<and> la \<le> 90 \<and> - 180 \<le> lo \<and> lo \<le> 180
      \<and> \<not> fails UserUpdate
      \<and> find (\<lambda>r. ur_id r = au_id (sk_user socket)) (users s) = Some row \<longrightarrow>
        last (snd (handleLocationUpdate fails findNearbySync now s socket d))
          = ({sk_id socket}, LocationUpdated la lo)
        \<and> find (\<lambda>r. ur_id r = au_id (sk_user socket))
             (users (fst (handleLocationUpdate fails findNearbySync now s socket d)))
          = Some (row\<lparr>ur_lastLatitude := Some la, ur_lastLongitude := Some lo,
                      ur_lastLocationUpdate := Some now\<rparr>))
   \<and> (\<not> au_isAnonymous (sk_user socket)
      \<and> (asNumber (ld_latitude d) = None \<or> asNumber (ld_longitude d) = None
          \<or> (\<exists>x y. ld_latitude d = JNumber x \<and> ld_longitude d = JNumber y
                \<and> (x < - 90 \<or> 90 < x \<or> y < - 180 \<or> 180 < y))) \<longrightarrow>
        handleLocationUpdate fails findNearbySync now s socket d
          = (s, [({sk_id socket}, ErrorEvent ''Invalid coordinates'')]))
   \<and> (au_isAnonymous (sk_user socket) \<longrightarrow>
        handleLocationUpdate fails findNearbySync now s socket d = (s, []))"
proof (intro conjI impI)
  assume a: "\<not> au_isAnonymous (sk_user socket)
      \<and> ld_latitude d = JNumber la \<and> ld_longitude d = JNumber lo
      \<and> - 90 \<le> la \<and> la \<le> 90 \<and> - 180 \<le> lo \<and> lo \<le> 180
      \<and> \<not> fails UserUpdate
      \<and> find (\<lambda>r. ur_id r = au_id (sk_user socket)) (users s) = Some row"
  let ?upd = "\<lambda>r. if ur_id r = au_id (sk_user socket)
                   then r\<lparr>ur_lastLatitude := Some la, ur_lastLongitude := Some lo,
                          ur_lastLocationUpdate := Some now\<rparr>
                   else r"
  have r: "handleLocationUpdate fails findNearbySync now s socket d =
      (s\<lparr>users := map ?upd (users s)\<rparr>,
       checkNearbyNotifications fails findNearbySync now (s\<lparr>users := map ?upd (users s)\<rparr>)
         socket la lo @ [socketEmit socket (LocationUpdated la lo)])"
    using a by (simp add: handleLocationUpdate_def Let_def)
  show "last (snd (handleLocationUpdate fails findNearbySync now s socket d))
              = ({sk_id socket}, LocationUpdated la lo)"
    by (simp add: r socketEmit_def)
  have idrow: "ur_id row = au_id (sk_user socket)"
    using a by (auto simp: find_Some_iff)
  have "find (\<lambda>r. ur_id r = au_id (sk_user socket)) (map ?upd (users s)) = Some (?upd row)"
    using a by (intro find_map_update) auto
  then show "find (\<lambda>r. ur_id r = au_id (sk_user socket))
                 (users (fst (handleLocationUpdate fails findNearbySync now s socket d)))
              = Some (row\<lparr>ur_lastLatitude := Some la, ur_lastLongitude := Some lo,
                          ur_lastLocationUpdate := Some now\<rparr>)"
    by (simp add: r idrow)
next
  assume "\<not> au_isAnonymous (sk_user socket)
      \<and> (asNumber (ld_latitude d) = None \<or> asNumber (ld_longitude d) = None
          \<or> (\<exists>x y. ld_latitude d = JNumber x \<and> ld_longitude d = JNumber y
                \<and> (x < - 90 \<or> 90 < x \<or> y < - 180 \<or> 180 < y)))"
  then show "handleLocationUpdate fails findNearbySync now s socket d
              = (s, [({sk_id socket}, ErrorEvent ''Invalid coordinates'')])"
    by (auto simp: handleLocationUpdate_def socketEmit_def split: option.splits)
next
  assume "au_isAnonymous (sk_user socket)"
  then show "handleLocationUpdate fails findNearbySync now s socket d = (s, [])"
    by (simp add: handleLocationUpdate_def)
qed

theorem handleLocationUpdate_cases_witness:
  "\<not> au_isAnonymous (sk_user alice) \<and> \<not> noFault UserUpdate
   \<and> find (\<lambda>r. ur_id r = au_id (sk_user alice)) (users demo) = Some (registered ''u1'' 0 10 25)
   \<and> last (snd (handleLocationUpdate noFault (\<lambda>la lo r n. []) 1700000000000 demo alice
                  \<lparr>ld_latitude = JNumber 48.85, ld_longitude = JNumber 2.35\<rparr>))
        = ({''A''}, LocationUpdated 48.85 2.35)
   \<and> find (\<lambda>r. ur_id r = ''u1'')
        (users (fst (handleLocationUpdate noFault (\<lambda>la lo r n. []) 1700000000000 demo alice
                       \<lparr>ld_latitude = JNumber 48.85, ld_longitude = JNumber 2.35\<rparr>)))
        = Some ((registered ''u1'' 0 10 25)
                  \<lparr>ur_lastLatitude := Some 48.85, ur_lastLongitude := Some 2.35,
                   ur_lastLocationUpdate := Some 1700000000000\<rparr>)
   \<and> handleLocationUpdate noFault (\<lambda>la lo r n. []) 1700000000000 demo alice
        \<lparr>ld_latitude = JNumber 91, ld_longitude = JOther\<rparr>
        = (demo, [({''A''}, ErrorEvent ''Invalid coordinates'')])
   \<and> au_isAnonymous (sk_user carol)
   \<and> handleLocationUpdate noFault (\<lambda>la lo r n. []) 1700000000000 demo carol
        \<lparr>ld_latitude = JNumber 48.85, ld_longitude = JNumber 2.35\<rparr> = (demo, [])"
proof -
  have h1: "\<not> au_isAnonymous (sk_user alice)" and i: "au_id (sk_user alice) = ''u1''"
    and k: "sk_id alice = ''A''"
    by (simp_all add: alice_def)
  have h2: "\<not> noFault UserUpdate" by (simp add: noFault_def)
  have h3: "find (\<lambda>r. ur_id r = au_id (sk_user alice)) (users demo) = Some (registered ''u1'' 0 10 25)"
    by (simp add: i demo_def registered_def)
  have h4: "au_isAnonymous (sk_user carol)"
    by (simp add: carol_def anonymousUser_def)
  from handleLocationUpdate_cases [of alice
      "\<lparr>ld_latitude = JNumber 48.85, ld_longitude = JNumber 2.35\<rparr>" "48.85" "2.35" noFault demo
      "registered ''u1'' 0 10 25" "\<lambda>la lo r n. []" 1700000000000]
    handleLocationUpdate_cases [of alice
      "\<lparr>ld_latitude = JNumber 91, ld_longitude = JOther\<rparr>" 0 0 noFault demo
      "registered ''u1'' 0 10 25" "\<lambda>la lo r n. []" 1700000000000]
    handleLocationUpdate_cases [of carol
      "\<lparr>ld_latitude = JNumber 48.85, ld_longitude = JNumber 2.35\<rparr>" "48.85" "2.35" noFault demo
      "registered ''u1'' 0 10 25" "\<lambda>la lo r n. []" 1700000000000]
    h1 h2 h3 h4
  show ?thesis by (simp add: i k)
qed

text \<open>
  C8, at its failing input: socket A, a member of the room of s1 with B, starts typing (B
  is told) and then disconnects. The disconnect handler sends nothing and touches no
  room, so B receives neither a typing-stop nor a leave event; had A left the room or
  stopped typing explicitly, B would have been told \<open>user_left\<close> or \<open>user_stopped_typing\<close>.
\<close>

theorem handleDisconnect_silent:
  "''A'' \<in> rooms demo (sightingRoom ''s1'')
   \<and> snd (handleTypingStart demo alice ''s1'') = [({''B''}, UserTyping ''u1'' ''alice'' False)]
   \<and> snd (handleDisconnect (fst (handleTypingStart demo alice ''s1'')) alice) = []
   \<and> rooms (fst (handleDisconnect demo alice)) = rooms demo
   \<and> snd (handleLeaveSighting demo alice ''s1'') = [({''B''}, UserLeft ''u1'' ''alice'')]
   \<and> snd (handleTypingStop demo alice ''s1'') = [({''B''}, UserStoppedTyping ''u1'')]"
  by (simp add: handleTypingStart_def handleTypingStop_def handleLeaveSighting_def
      handleDisconnect_def socketToEmit_def socketLeave_def Let_def
      sightingRoom_def demo_def alice_def displayName_def orElse_def insert_Diff_if)

subsection \<open>Chat history on join\<close>

lemma sorted_rev_neg:
  fixes f :: "'a \<Rightarrow> int"
  shows "sorted (map (\<lambda>m. - f m) ys) \<Longrightarrow> sorted (rev (map f ys))"
  by (induction ys) (auto simp: sorted_append)

lemma recent_sorted: "sorted (rev (map cm_createdAt (recentMessages s i)))"
proof -
  have "sorted (map (\<lambda>m. - cm_createdAt m) (recentMessages s i))"
    unfolding recentMessages_def
    by (simp add: sorted_wrt_take flip: take_map)
  then show ?thesis by (rule sorted_rev_neg)
qed

lemma take_drop_newer:
  fixes f :: "'a \<Rightarrow> int"
  assumes "sorted (map (\<lambda>m. - f m) ys)" and "x \<in> set (take n ys)" and "y \<in> set (drop n ys)"
  shows "f y \<le> f x"
proof -
  have "sorted (map (\<lambda>m. - f m) (take n ys) @ map (\<lambda>m. - f m) (drop n ys))"
    using assms(1) by (simp flip: map_append)
  then have "- f x \<le> - f y"
    using assms(2,3) by (auto simp: sorted_append)
  then show ?thesis by simp
qed

lemma recent_newest:
  assumes "m \<in> set (chatMessages s)" "cm_sightingId m = i" "\<not> cm_isHidden m"
    "m \<notin> set (recentMessages s i)" "h \<in> set (recentMessages s i)"
  shows "cm_createdAt m \<le> cm_createdAt h"
proof -
  let ?ys = "sort_key (\<lambda>m. - cm_createdAt m)
          (filter (\<lambda>m. cm_sightingId m = i \<and> cm_isHidden m = False) (chatMessages s))"
  have "m \<in> set ?ys" using assms(1-3) by simp
  then have "m \<in> set (take 50 ?ys) \<union> set (drop 50 ?ys)"
    by (simp flip: set_append)
  with assms(4) have d: "m \<in> set (drop 50 ?ys)"
    by (simp add: recentMessages_def)
  have "sorted (map (\<lambda>m. - cm_createdAt m) ?ys)" by simp
  from take_drop_newer [OF this _ d, of h] assms(5) show ?thesis
    by (simp add: recentMessages_def)
qed

lemma recent_members:
  "m \<in> set (recentMessages s i) \<Longrightarrow>
     m \<in> set (chatMessages s) \<and> cm_sightingId m = i \<and> \<not> cm_isHidden m"
  unfolding recentMessages_def
  by (auto dest: in_set_takeD)

lemma recent_length:
  "length (recentMessages s i) =
     min 50 (length (filter (\<lambda>m. cm_sightingId m = i \<and> cm_isHidden m = False) (chatMessages s)))"
  by (simp add: recentMessages_def min.commute)

lemma recent_join: "recentMessages (socketJoin s socket room) i = recentMessages s i"
  by (simp add: recentMessages_def socketJoin_def)

text \<open>
  C10. On a successful join (the sighting exists and is not hidden, the store answers)
  the joiner is sent one \<open>chat_history\<close> whose messages number at most 50, all belong to
  the room and are not hidden, are in ascending order of creation time (oldest first), and
  are the most recent ones: no visible message of the room that was left out is newer
  than one that was sent.
\<close>

theorem join_history:
  assumes "visibleSighting s sightingId"
    and "\<not> fails SightingFindUnique" and "\<not> fails ChatMessageFindMany"
  shows "\<exists>joined hist.
           snd (handleJoinSighting fails s socket sightingId)
             = [joined, ({sk_id socket}, ChatHistory sightingId hist)]
         \<and> length hist \<le> 50
         \<and> length hist = min 50 (length (filter (\<lambda>m. cm_sightingId m = sightingId
                                        \<and> cm_isHidden m = False) (chatMessages s)))
         \<and> (\<forall>m \<in> set (map fst hist).
               m \<in> set (chatMessages s) \<and> cm_sightingId m = sightingId \<and> \<not> cm_isHidden m)
         \<and> sorted (map (\<lambda>h. cm_createdAt (fst h)) hist)
         \<and> (\<forall>m \<in> set (chatMessages s).
               cm_sightingId m = sightingId \<and> \<not> cm_isHidden m \<and> m \<notin> set (map fst hist)
               \<longrightarrow> (\<forall>h \<in> set (map fst hist). cm_createdAt m \<le> cm_createdAt h))"
proof -
  let ?s1 = "socketJoin s socket (sightingRoom sightingId)"
  let ?hist = "rev (map (\<lambda>m. (m, selectUser ?s1 (cm_userId m))) (recentMessages s sightingId))"
  have m: "map fst ?hist = rev (recentMessages s sightingId)"
    by (simp add: rev_map comp_def)
  have e: "snd (handleJoinSighting fails s socket sightingId)
     = [socketToEmit ?s1 socket (sightingRoom sightingId)
          (UserJoined (au_id (sk_user socket)) (displayName socket)
             (au_isAnonymous (sk_user socket))),
        ({sk_id socket}, ChatHistory sightingId ?hist)]"
    using assms by (simp add: handleJoinSighting_def Let_def socketEmit_def recent_join)
  have l: "length ?hist = min 50 (length (filter (\<lambda>m. cm_sightingId m = sightingId
                                        \<and> cm_isHidden m = False) (chatMessages s)))"
    by (simp add: recent_length)
  have so: "sorted (map (\<lambda>h. cm_createdAt (fst h)) ?hist)"
    using recent_sorted [of s sightingId] by (simp add: rev_map comp_def)
  have mem: "\<forall>m \<in> set (map fst ?hist).
               m \<in> set (chatMessages s) \<and> cm_sightingId m = sightingId \<and> \<not> cm_isHidden m"
    unfolding m using recent_members by simp
  have new: "\<forall>m \<in> set (chatMessages s).
               cm_sightingId m = sightingId \<and> \<not> cm_isHidden m \<and> m \<notin> set (map fst ?hist)
               \<longrightarrow> (\<forall>h \<in> set (map fst ?hist). cm_createdAt m \<le> cm_createdAt h)"
    unfolding m using recent_newest by simp
  from l have l50: "length ?hist \<le> 50" by simp
  from e l50 l mem so new show ?thesis by blast
qed

lemma demoChat_visible: "visibleSighting demoChat ''s1''"
  by (simp add: visibleSighting_def demoChat_def demo_def equatorSighting_def citySighting_def)

theorem join_history_witness:
  "visibleSighting demoChat ''s1'' \<and> \<not> noFault SightingFindUnique \<and> \<not> noFault ChatMessageFindMany
   \<and> snd (handleJoinSighting noFault demoChat carol ''s1'') =
        [({''A'', ''B''}, UserJoined ''anonymous_C'' ''Anonymous'' True),
         ({''C''}, ChatHistory ''s1'' [(message ''m3'' 10 False, None), (message ''m1'' 20 False, None)])]
   \<and> (\<exists>joined hist.
           snd (handleJoinSighting noFault demoChat carol ''s1'')
             = [joined, ({sk_id carol}, ChatHistory ''s1'' hist)]
         \<and> length hist \<le> 50
         \<and> sorted (map (\<lambda>h. cm_createdAt (fst h)) hist))"
proof -
  have h1: "visibleSighting demoChat ''s1''" by (rule demoChat_visible)
  have h2: "\<not> noFault SightingFindUnique" and h3: "\<not> noFault ChatMessageFindMany"
    by (simp_all add: noFault_def)
  have v: "snd (handleJoinSighting noFault demoChat carol ''s1'') =
        [({''A'', ''B''}, UserJoined ''anonymous_C'' ''Anonymous'' True),
         ({''C''}, ChatHistory ''s1'' [(message ''m3'' 10 False, None), (message ''m1'' 20 False, None)])]"
    apply (simp add: handleJoinSighting_def Let_def noFault_def demoChat_visible)
    apply (simp add: socketToEmit_def socketEmit_def socketJoin_def recentMessages_def
        selectUser_def carol_def anonymousUser_def displayName_def orElse_def sightingRoom_def)
    apply (simp add: demoChat_def demo_def message_def insert_Diff_if)
    done
  from join_history [OF h1 h2 h3, of carol] obtain joined hist where
    "snd (handleJoinSighting noFault demoChat carol ''s1'')
             = [joined, ({sk_id carol}, ChatHistory ''s1'' hist)]"
    "length hist \<le> 50" "sorted (map (\<lambda>h. cm_createdAt (fst h)) hist)"
    by blast
  with h1 h2 h3 v show ?thesis by blast
qed

end
